theory Spec2Isabelle
  imports Complex_Main "HOL-Library.Char_ord" "HOL-Library.List_Lexorder"
begin

section \<open>Python values, exceptions and string helpers\<close>

text \<open>
  The exceptions the modelled functions can raise. A function that can raise returns
  \<open>error + 'a\<close>, with \<open>Inl\<close> the exception.
\<close>

datatype error = NameError | IndexError | ValueError

definition bind_err :: "error + 'a \<Rightarrow> ('a \<Rightarrow> error + 'b) \<Rightarrow> error + 'b" where
  "bind_err m f = (case m of Inl e \<Rightarrow> Inl e | Inr x \<Rightarrow> f x)"

text \<open>\<open>sorted(list(set(xs)))\<close>, on strings (compared by character code) and on integers.\<close>

definition sorted_set :: "('a::linorder) list \<Rightarrow> 'a list" where
  "sorted_set xs = sort (remdups xs)"

text \<open>\<open>s.split(sep)\<close> with a one-character separator: never empty, \<open>''.split(':') == ['']\<close>.\<close>

fun str_split :: "char \<Rightarrow> string \<Rightarrow> string list" where
  "str_split sep [] = [[]]"
| "str_split sep (c # cs) =
     (if c = sep then [] # str_split sep cs
      else (case str_split sep cs of
              p # ps \<Rightarrow> (c # p) # ps
            | [] \<Rightarrow> [[c]]))"

text \<open>
  \<open>int(s)\<close> on a string of ASCII characters: white space at both ends is stripped
  (the codes 9 to 13 and 32; the separators 28 to 31 are not white space for \<open>int\<close>),
  one sign is allowed, then decimal digits, with single underscores between digits.
  \<open>None\<close> stands for the \<open>ValueError\<close> the callers turn it into. A string with a
  character outside ASCII always gives \<open>None\<close> here, while \<open>int\<close> itself accepts
  further white space and digits there; what is stated from a \<open>None\<close> is therefore
  stated for ASCII strings. The limit that later versions of Python put on the number
  of digits is not part of the model.
\<close>

definition is_ascii :: "string \<Rightarrow> bool" where
  "is_ascii s = list_all (\<lambda>c. (of_char c :: nat) < 128) s"

definition is_space :: "char \<Rightarrow> bool" where
  "is_space c = ((of_char c :: nat) \<in> {9, 10, 11, 12, 13, 32})"

definition is_digit :: "char \<Rightarrow> bool" where
  "is_digit c = (48 \<le> (of_char c :: nat) \<and> (of_char c :: nat) \<le> 57)"

definition digit_val :: "char \<Rightarrow> int" where
  "digit_val c = int (of_char c) - 48"

definition strip :: "string \<Rightarrow> string" where
  "strip s = rev (dropWhile is_space (rev (dropWhile is_space s)))"

fun digits_val :: "int \<Rightarrow> string \<Rightarrow> int option" where
  "digits_val acc [] = Some acc"
| "digits_val acc [c] = (if is_digit c then Some (10 * acc + digit_val c) else None)"
| "digits_val acc (c # d # ds) =
     (if is_digit c then digits_val (10 * acc + digit_val c) (d # ds)
      else if c = CHR ''_'' \<and> is_digit d then digits_val (10 * acc + digit_val d) ds
      else None)"

definition unsigned_int :: "string \<Rightarrow> int option" where
  "unsigned_int body =
     (case body of
        [] \<Rightarrow> None
      | d # ds \<Rightarrow> if is_digit d then digits_val (digit_val d) ds else None)"

definition py_int :: "string \<Rightarrow> int option" where
  "py_int s =
     (case strip s of
        [] \<Rightarrow> None
      | c # cs \<Rightarrow>
          if c = CHR ''-'' then map_option uminus (unsigned_int cs)
          else if c = CHR ''+'' then unsigned_int cs
          else unsigned_int (c # cs))"

section \<open>utils/datetime.py\<close>

text \<open>
  The argument of \<open>yyyymmdd\<close> and \<open>yymmdd\<close>: a \<open>str\<close>, a \<open>list\<close> of \<open>str\<close>, or anything
  else; every other argument takes the last branch and gives \<open>None\<close>, which is
  \<open>PyNone\<close> here.
\<close>

datatype dates = Str string | StrList "string list" | PyNone

text \<open>\<open>date[0]\<close> raises \<open>IndexError\<close> on the empty string.\<close>

definition yymmdd2yyyymmdd :: "string \<Rightarrow> error + string" where
  "yymmdd2yyyymmdd date =
     (case date of
        [] \<Rightarrow> Inl IndexError
      | c # _ \<Rightarrow> if c = CHR ''9'' then Inr (''19'' @ date) else Inr (''20'' @ date))"

fun yyyymmdd_loop :: "string list \<Rightarrow> string list \<Rightarrow> error + string list" where
  "yyyymmdd_loop [] datesOut = Inr datesOut"
| "yyyymmdd_loop (date # rest) datesOut =
     bind_err (if length date = 6 then yymmdd2yyyymmdd date else Inr date)
       (\<lambda>date'. yyyymmdd_loop rest (datesOut @ [date']))"

definition yyyymmdd :: "dates \<Rightarrow> error + dates" where
  "yyyymmdd ds =
     (case ds of
        Str s \<Rightarrow> if length s = 6 then bind_err (yymmdd2yyyymmdd s) (\<lambda>r. Inr (Str r))
                 else Inr (Str s)
      | StrList l \<Rightarrow> bind_err (yyyymmdd_loop l []) (\<lambda>r. Inr (StrList r))
      | PyNone \<Rightarrow> Inr PyNone)"

text \<open>\<open>date[2:8]\<close> is the slice from position 2 up to, not including, position 8.\<close>

definition slice_2_8 :: "string \<Rightarrow> string" where
  "slice_2_8 s = drop 2 (take 8 s)"

definition yymmdd :: "dates \<Rightarrow> error + dates" where
  "yymmdd ds =
     (case ds of
        Str s \<Rightarrow> if length s = 8 then Inr (Str (slice_2_8 s)) else Inr (Str s)
      | StrList l \<Rightarrow> Inr (StrList (map (\<lambda>date. if length date = 8 then slice_2_8 date else date) l))
      | PyNone \<Rightarrow> Inr PyNone)"

section \<open>modify\_network.py: the index-list parser\<close>





definition all_parts_int :: "string list \<Rightarrow> bool" where
  "all_parts_int idxList =
     list_all (\<lambda>tok. list_all (\<lambda>p. py_int p \<noteq> None) (str_split CHR '':'' tok)) idxList"


section \<open>modify\_network.py: options, stack and collaborators\<close>

text \<open>
  The namespace \<open>inps\<close> after \<open>cmdLineParse\<close>: the fields the network code reads.
  \<open>excludeIfgIndex\<close> is the integer list \<open>cmdLineParse\<close> leaves there; \<open>excludeDate\<close>
  is \<open>[]\<close> for both \<open>None\<close> and the empty list, which the code does not tell apart.
\<close>

record inps =
  file' :: string
  template_file :: "string option"
  reset :: bool
  referenceFile :: "string option"
  tempBaseMax :: "real option"
  perpBaseMax :: "real option"
  excludeIfgIndex :: "int list"
  excludeDate :: "string list"
  startDate :: "string option"
  endDate :: "string option"
  coherenceBased :: bool
  keepMinSpanTree :: bool
  minCoherence :: real
  manual :: bool

text \<open>Truth value of an optional string (\<open>None\<close> and \<open>''\<close> are false) and of an optional number.\<close>

definition truthy_str :: "string option \<Rightarrow> bool" where
  "truthy_str v = (case v of None \<Rightarrow> False | Some s \<Rightarrow> s \<noteq> [])"

definition truthy_num :: "real option \<Rightarrow> bool" where
  "truthy_num v = (case v of None \<Rightarrow> False | Some x \<Rightarrow> x \<noteq> 0)"

text \<open>
  The opened stack \<open>obj\<close>: the pair names in storage order, the dataset \<open>dropIfgram\<close>
  (the only part the program writes; \<open>True\<close> marks a pair as kept), and the two
  baseline arrays. Baselines and coherences are numbers compared with \<open>>\<close> and \<open>>=\<close>;
  they are reals here.
\<close>

record ifgramStack =
  date12List :: "string list"
  dropIfgram :: "bool list"
  tbaseIfgram :: "int list"
  pbaseIfgram :: "real list"

text \<open>
  Modelled from the spec: \<open>ifgramStack.get_date12_list(dropIfgram=True)\<close>, a method of
  the class \<open>ifgramStack\<close>, which is not among these sources. By the data model it
  gives the pairs whose flag is set, that is the pairs currently kept, in storage order.
\<close>

definition get_date12_list_kept :: "ifgramStack \<Rightarrow> string list" where
  "get_date12_list_kept obj = map fst (filter snd (zip (date12List obj) (dropIfgram obj)))"

text \<open>
  Modelled from the spec: \<open>ifgramStack.update_drop_ifgram(date12List_to_drop)\<close>, of the
  same class; the storage interface says it rewrites the whole flag array from the
  drop list: a pair stays kept exactly when it is not in the list.
\<close>

definition update_drop_ifgram :: "string list \<Rightarrow> ifgramStack \<Rightarrow> ifgramStack" where
  "update_drop_ifgram date12List_to_drop obj =
     obj\<lparr>dropIfgram := map (\<lambda>d. d \<notin> set date12List_to_drop) (date12List obj)\<rparr>"

text \<open>
  What the collaborators outside these sources return during one run: the keep list
  read from the reference file, the spatial average coherence of every pair
  (\<open>ut.spatial_average\<close>), the minimum spanning tree function
  (\<open>pnet.threshold_coherence_based_mst\<close>), the pairs clicked in the figure and the
  answer to the final question of the manual selection.
\<close>

record collaborators =
  reference_date12_to_keep :: "string list"
  cohList :: "real list"
  threshold_coherence_based_mst :: "string list \<Rightarrow> real list \<Rightarrow> string list"
  date12_click :: "string list"
  yes_or_no :: bool

section \<open>modify\_network.py: reset\_network\<close>

text \<open>
  The result is the stack as it is stored afterwards, the lines printed, and the
  returned file name or the exception. In the branch that writes, the file is written
  and closed first; the call of \<open>ut.touch\<close> after it reads \<open>inps.file\<close>, and \<open>inps\<close>
  is bound neither in the function nor in the module, which raises \<open>NameError\<close>.
\<close>

definition reset_network :: "string \<Rightarrow> ifgramStack \<Rightarrow> ifgramStack \<times> string list \<times> (error + string)" where
  "reset_network stackFile obj =
     (let printed = [''reset dataset 'dropIfgram' to True for all interferograms for file: '' @ stackFile] in
      if list_all (\<lambda>b. b) (dropIfgram obj)
      then (obj, printed @ [''All dropIfgram are already True, no need to reset.''], Inr stackFile)
      else (obj\<lparr>dropIfgram := map (\<lambda>_. True) (dropIfgram obj)\<rparr>, printed, Inl NameError))"

section \<open>modify\_network.py: manual\_select\_pairs\_to\_remove\<close>

text \<open>Lines 262 to 265: the clicked pairs, or \<open>None\<close> when the user does not proceed.\<close>

definition manual_select_pairs_to_remove :: "collaborators \<Rightarrow> string list option" where
  "manual_select_pairs_to_remove env =
     (if \<not> yes_or_no env then None else Some (date12_click env))"

section \<open>modify\_network.py: get\_date12\_to\_drop\<close>

text \<open>
  \<open>np.array(xs)[mask]\<close> with a boolean mask: the elements where the mask is true.
  The length of the mask is checked only when the mask is not empty: an empty mask
  selects nothing, a mask of another length that is not empty raises \<open>IndexError\<close>.
\<close>

definition mask_select :: "'a list \<Rightarrow> bool list \<Rightarrow> error + 'a list" where
  "mask_select xs flags =
     (if flags = [] then Inr []
      else if length flags = length xs then Inr (map fst (filter snd (zip xs flags)))
      else Inl IndexError)"

text \<open>\<open>xs[i]\<close>: a negative index counts from the end, an index out of range raises.\<close>

definition py_index :: "'a list \<Rightarrow> int \<Rightarrow> error + 'a" where
  "py_index xs i =
     (if 0 \<le> i \<and> i < int (length xs) then Inr (xs ! nat i)
      else if i < 0 \<and> - int (length xs) \<le> i then Inr (xs ! nat (int (length xs) + i))
      else Inl IndexError)"

fun map_err :: "('a \<Rightarrow> error + 'b) \<Rightarrow> 'a list \<Rightarrow> error + 'b list" where
  "map_err f [] = Inr []"
| "map_err f (x # xs) = bind_err (f x) (\<lambda>y. bind_err (map_err f xs) (\<lambda>ys. Inr (y # ys)))"

fun filter_err :: "('a \<Rightarrow> error + bool) \<Rightarrow> 'a list \<Rightarrow> error + 'a list" where
  "filter_err P [] = Inr []"
| "filter_err P (x # xs) =
     bind_err (P x) (\<lambda>b. bind_err (filter_err P xs) (\<lambda>ys. Inr (if b then x # ys else ys)))"

text \<open>
  \<open>any(P(int(j)) for j in parts)\<close>: the generator stops at the first part that
  satisfies \<open>P\<close>, so a later part that is no integer is never converted.
\<close>

fun any_int :: "(int \<Rightarrow> bool) \<Rightarrow> string list \<Rightarrow> error + bool" where
  "any_int P [] = Inr False"
| "any_int P (j # js) =
     (case py_int j of
        None \<Rightarrow> Inl ValueError
      | Some v \<Rightarrow> if P v then Inr True else any_int P js)"

text \<open>
  Each rule takes the list \<open>date12_to_drop\<close> built so far and gives the list after it.
  Rule 1, lines 282 to 289.
\<close>

definition drop_reference :: "inps \<Rightarrow> ifgramStack \<Rightarrow> collaborators \<Rightarrow> string list \<Rightarrow> error + string list" where
  "drop_reference inps obj env date12_to_drop =
     (if truthy_str (referenceFile inps) then
        let date12_to_keep = reference_date12_to_keep env;
            tempList = sorted_set (filter (\<lambda>d. d \<notin> set date12_to_keep) (date12List obj))
        in Inr (date12_to_drop @ tempList)
      else Inr date12_to_drop)"

text \<open>Rule 2.1, lines 305 to 316: \<open>tempList\<close> of the coherence-based rule.\<close>

definition coherence_tempList :: "inps \<Rightarrow> ifgramStack \<Rightarrow> collaborators \<Rightarrow> error + string list" where
  "coherence_tempList inps obj env =
     (let date12ListAll = date12List obj in
      bind_err (mask_select date12ListAll (map (\<lambda>c. minCoherence inps \<le> c) (cohList env)))
        (\<lambda>coh_date12_list.
           let mst_date12_list =
                 (if keepMinSpanTree inps
                  then threshold_coherence_based_mst env date12ListAll (cohList env)
                  else [])
           in Inr (sorted_set (filter (\<lambda>d. d \<notin> set coh_date12_list \<and> d \<notin> set mst_date12_list)
                                 date12ListAll))))"

definition drop_coherence :: "inps \<Rightarrow> ifgramStack \<Rightarrow> collaborators \<Rightarrow> string list \<Rightarrow> error + string list" where
  "drop_coherence inps obj env date12_to_drop =
     (if coherenceBased inps then
        bind_err (coherence_tempList inps obj env) (\<lambda>tempList. Inr (date12_to_drop @ tempList))
      else Inr date12_to_drop)"

text \<open>Rules 2.2 and 2.3, lines 321 to 334.\<close>

definition drop_tempBaseMax :: "inps \<Rightarrow> ifgramStack \<Rightarrow> string list \<Rightarrow> error + string list" where
  "drop_tempBaseMax inps obj date12_to_drop =
     (case tempBaseMax inps of
        None \<Rightarrow> Inr date12_to_drop
      | Some m \<Rightarrow>
          if m = 0 then Inr date12_to_drop
          else bind_err (mask_select (date12List obj) (map (\<lambda>t. m < real_of_int \<bar>t\<bar>) (tbaseIfgram obj)))
                 (\<lambda>tempList. Inr (date12_to_drop @ tempList)))"

definition drop_perpBaseMax :: "inps \<Rightarrow> ifgramStack \<Rightarrow> string list \<Rightarrow> error + string list" where
  "drop_perpBaseMax inps obj date12_to_drop =
     (case perpBaseMax inps of
        None \<Rightarrow> Inr date12_to_drop
      | Some m \<Rightarrow>
          if m = 0 then Inr date12_to_drop
          else bind_err (mask_select (date12List obj) (map (\<lambda>p. m < \<bar>p\<bar>) (pbaseIfgram obj)))
                 (\<lambda>tempList. Inr (date12_to_drop @ tempList)))"

text \<open>Rule 2.4, lines 337 to 341.\<close>

definition drop_excludeIfgIndex :: "inps \<Rightarrow> ifgramStack \<Rightarrow> string list \<Rightarrow> error + string list" where
  "drop_excludeIfgIndex inps obj date12_to_drop =
     (if excludeIfgIndex inps \<noteq> [] then
        bind_err (map_err (py_index (date12List obj)) (excludeIfgIndex inps))
          (\<lambda>tempList. Inr (date12_to_drop @ tempList))
      else Inr date12_to_drop)"

text \<open>
  Rule 2.5, lines 344 to 348. Line 345 builds \<open>tempList\<close> and line 346 appends it;
  line 348 then evaluates \<open>len(templist)\<close>, a name that is bound nowhere, so the
  branch always ends in \<open>NameError\<close>.
\<close>

definition excludeDate_tempList :: "inps \<Rightarrow> ifgramStack \<Rightarrow> string list" where
  "excludeDate_tempList inps obj =
     filter (\<lambda>i. list_ex (\<lambda>j. j \<in> set (excludeDate inps)) (str_split CHR ''_'' i)) (date12List obj)"

definition drop_excludeDate :: "inps \<Rightarrow> ifgramStack \<Rightarrow> string list \<Rightarrow> error + string list" where
  "drop_excludeDate inps obj date12_to_drop =
     (if excludeDate inps \<noteq> [] then
        let tempList = excludeDate_tempList inps obj;
            date12_to_drop = date12_to_drop @ tempList
        in Inl NameError
      else Inr date12_to_drop)"

text \<open>Rules 2.6 and 2.7, lines 351 to 364.\<close>

definition drop_startDate :: "inps \<Rightarrow> ifgramStack \<Rightarrow> string list \<Rightarrow> error + string list" where
  "drop_startDate inps obj date12_to_drop =
     (case startDate inps of
        None \<Rightarrow> Inr date12_to_drop
      | Some s \<Rightarrow>
          if s = [] then Inr date12_to_drop
          else (case py_int s of
                  None \<Rightarrow> Inl ValueError
                | Some minDate \<Rightarrow>
                    bind_err (filter_err (\<lambda>i. any_int (\<lambda>v. v < minDate) (str_split CHR ''_'' i))
                                (date12List obj))
                      (\<lambda>tempList. Inr (date12_to_drop @ tempList))))"

definition drop_endDate :: "inps \<Rightarrow> ifgramStack \<Rightarrow> string list \<Rightarrow> error + string list" where
  "drop_endDate inps obj date12_to_drop =
     (case endDate inps of
        None \<Rightarrow> Inr date12_to_drop
      | Some s \<Rightarrow>
          if s = [] then Inr date12_to_drop
          else (case py_int s of
                  None \<Rightarrow> Inl ValueError
                | Some maxDate \<Rightarrow>
                    bind_err (filter_err (\<lambda>i. any_int (\<lambda>v. maxDate < v) (str_split CHR ''_'' i))
                                (date12List obj))
                      (\<lambda>tempList. Inr (date12_to_drop @ tempList))))"

text \<open>
  Rule 3, lines 367 to 373. \<open>None\<close> is the early \<open>return None\<close> of line 370; otherwise
  the list after the rule.
\<close>

definition drop_manual :: "inps \<Rightarrow> ifgramStack \<Rightarrow> collaborators \<Rightarrow> string list \<Rightarrow> string list option" where
  "drop_manual inps obj env date12_to_drop =
     (if manual inps then
        (case manual_select_pairs_to_remove env of
           None \<Rightarrow> None
         | Some tempList \<Rightarrow>
             Some (date12_to_drop @ filter (\<lambda>i. i \<in> set (date12List obj)) tempList))
      else Some date12_to_drop)"

text \<open>Lines 279 to 364: the rules before the manual selection, in the order of the code.\<close>

definition drop_rules :: "inps \<Rightarrow> ifgramStack \<Rightarrow> collaborators \<Rightarrow> error + string list" where
  "drop_rules inps obj env =
     bind_err (drop_reference inps obj env []) (\<lambda>d1.
     bind_err (drop_coherence inps obj env d1) (\<lambda>d2.
     bind_err (drop_tempBaseMax inps obj d2) (\<lambda>d3.
     bind_err (drop_perpBaseMax inps obj d3) (\<lambda>d4.
     bind_err (drop_excludeIfgIndex inps obj d4) (\<lambda>d5.
     bind_err (drop_excludeDate inps obj d5) (\<lambda>d6.
     bind_err (drop_startDate inps obj d6) (\<lambda>d7.
     drop_endDate inps obj d7)))))))"

text \<open>
  Lines 279 to 376: all rules, then line 376, the sorted list without duplicates.
  \<open>None\<close> is the early return of the manual selection.
\<close>

definition collect_date12_to_drop :: "inps \<Rightarrow> ifgramStack \<Rightarrow> collaborators \<Rightarrow> error + string list option" where
  "collect_date12_to_drop inps obj env =
     bind_err (drop_rules inps obj env) (\<lambda>d8.
       Inr (map_option sorted_set (drop_manual inps obj env d8)))"

text \<open>Lines 382 and 383: the pairs now marked as dropped in the file.\<close>

definition date12ListDropped :: "ifgramStack \<Rightarrow> string list" where
  "date12ListDropped obj =
     sorted_set (filter (\<lambda>d. d \<notin> set (get_date12_list_kept obj)) (date12List obj))"

text \<open>Lines 384 to 387 after it: \<open>None\<close> when the two lists are the same.\<close>

definition get_date12_to_drop :: "inps \<Rightarrow> ifgramStack \<Rightarrow> collaborators \<Rightarrow> error + string list option" where
  "get_date12_to_drop inps obj env =
     bind_err (collect_date12_to_drop inps obj env) (\<lambda>r.
       case r of
         None \<Rightarrow> Inr None
       | Some date12_to_drop \<Rightarrow>
           Inr (if date12_to_drop = date12ListDropped obj then None else Some date12_to_drop))"

section \<open>modify\_network.py: read\_template2inps and main\<close>

text \<open>The test of lines 180 to 182, which \<open>main\<close> repeats in lines 396 to 398.\<close>

definition no_drop_option :: "inps \<Rightarrow> bool" where
  "no_drop_option inps =
     (\<not> truthy_str (referenceFile inps) \<and> \<not> truthy_num (tempBaseMax inps) \<and>
      \<not> truthy_num (perpBaseMax inps) \<and> excludeIfgIndex inps = [] \<and>
      excludeDate inps = [] \<and> \<not> coherenceBased inps \<and>
      \<not> truthy_str (startDate inps) \<and> \<not> truthy_str (endDate inps) \<and>
      \<not> reset inps \<and> \<not> manual inps)"

text \<open>
  Lines 139 to 177 read the template through \<open>readfile\<close> and \<open>ut\<close>, which are not among
  these sources, and copy its values into \<open>inps\<close>; that part is the parameter
  \<open>update_from_template\<close>. Lines 179 to 186 follow.
\<close>

definition read_template2inps :: "(inps \<Rightarrow> error + inps) \<Rightarrow> inps \<Rightarrow> error + inps" where
  "read_template2inps update_from_template inps =
     bind_err (update_from_template inps)
       (\<lambda>inps. if no_drop_option inps then Inr (inps\<lparr>reset := True\<rparr>) else Inr inps)"

text \<open>How \<open>main\<close> ends: \<open>sys.exit(1)\<close>, an exception, or a return.\<close>

datatype ending = SysExit nat | Raised error | Returned

text \<open>
  Lines 396 to 428 of \<open>main\<close>, on the options as they are after the template was read,
  with the stack as stored before and after. The updates of auxiliary files and the
  plot after the write-back do not touch \<open>dropIfgram\<close> and are left out.
\<close>

definition main_body :: "inps \<Rightarrow> ifgramStack \<Rightarrow> collaborators \<Rightarrow> ifgramStack \<times> ending" where
  "main_body inps obj env =
     (if no_drop_option inps then (obj, SysExit 1)
      else if reset inps then
        (case reset_network (file' inps) obj of
           (obj', printed, r) \<Rightarrow> (obj', case r of Inl e \<Rightarrow> Raised e | Inr f \<Rightarrow> Returned))
      else
        (case get_date12_to_drop inps obj env of
           Inl e \<Rightarrow> (obj, Raised e)
         | Inr None \<Rightarrow> (obj, Returned)
         | Inr (Some date12_to_drop) \<Rightarrow> (update_drop_ifgram date12_to_drop obj, Returned)))"

text \<open>Lines 392 to 394 before it, on the options \<open>cmdLineParse\<close> gave.\<close>

definition main :: "(inps \<Rightarrow> error + inps) \<Rightarrow> inps \<Rightarrow> ifgramStack \<Rightarrow> collaborators \<Rightarrow> ifgramStack \<times> ending" where
  "main update_from_template inps0 obj env =
     (case (if truthy_str (template_file inps0)
            then read_template2inps update_from_template inps0
            else Inr inps0) of
        Inl e \<Rightarrow> (obj, Raised e)
      | Inr inps \<Rightarrow> main_body inps obj env)"

section \<open>Comparing two sets of enabled rules\<close>

text \<open>
  \<open>more_rules a b\<close>: every rule that the options \<open>a\<close> enable is enabled in \<open>b\<close> with
  the same parameters; \<open>b\<close> may enable further rules.
\<close>

definition more_rules :: "inps \<Rightarrow> inps \<Rightarrow> bool" where
  "more_rules a b =
     ((truthy_str (referenceFile a) \<longrightarrow> referenceFile b = referenceFile a) \<and>
      (coherenceBased a \<longrightarrow> coherenceBased b \<and> keepMinSpanTree b = keepMinSpanTree a
                              \<and> minCoherence b = minCoherence a) \<and>
      (truthy_num (tempBaseMax a) \<longrightarrow> tempBaseMax b = tempBaseMax a) \<and>
      (truthy_num (perpBaseMax a) \<longrightarrow> perpBaseMax b = perpBaseMax a) \<and>
      (excludeIfgIndex a \<noteq> [] \<longrightarrow> excludeIfgIndex b = excludeIfgIndex a) \<and>
      (excludeDate a \<noteq> [] \<longrightarrow> excludeDate b = excludeDate a) \<and>
      (truthy_str (startDate a) \<longrightarrow> startDate b = startDate a) \<and>
      (truthy_str (endDate a) \<longrightarrow> endDate b = endDate a) \<and>
      (manual a \<longrightarrow> manual b))"

section \<open>A small stack for the examples\<close>

text \<open>
  Three dates and the three pairs between them, with coherences 0.9, 0.4 and 0.3,
  all kept at the start; the tree function picks the first two pairs of the list.
\<close>

definition ex_stack :: ifgramStack where
  "ex_stack =
     \<lparr>date12List = [''20080101_20080201'', ''20080201_20080301'', ''20080101_20080301''],
      dropIfgram = [True, True, True],
      tbaseIfgram = [31, 29, 60],
      pbaseIfgram = [10, - 20, 150]\<rparr>"

definition ex_env :: collaborators where
  "ex_env =
     \<lparr>reference_date12_to_keep = [],
      cohList = [9 / 10, 4 / 10, 3 / 10],
      threshold_coherence_based_mst = (\<lambda>date12ListAll coh. take 2 date12ListAll),
      date12_click = [''20080201_20080301'', ''20070101_20080301''],
      yes_or_no = True\<rparr>"

text \<open>Options with no rule enabled; the examples switch rules on from here.\<close>

definition ex_inps :: inps where
  "ex_inps =
     \<lparr>file' = ''ifgramStack.h5'', template_file = None, reset = False,
      referenceFile = None, tempBaseMax = None, perpBaseMax = None,
      excludeIfgIndex = [], excludeDate = [], startDate = None, endDate = None,
      coherenceBased = False, keepMinSpanTree = True, minCoherence = 7 / 10,
      manual = False\<rparr>"

section \<open>Properties of the date helpers\<close>

lemma yymmdd2yyyymmdd_len6:
  "length d = 6 \<Longrightarrow>
     yymmdd2yyyymmdd d = Inr ((if hd d = CHR ''9'' then ''19'' else ''20'') @ d)"
  by (cases d) (auto simp: yymmdd2yyyymmdd_def)

text \<open>
  C6 (as the code has it): \<open>yyyymmdd\<close> validates nothing. On a string it never raises:
  a string of six characters, digits or not, gets the century prefix (\<open>19\<close> when its
  first character is \<open>9\<close>, \<open>20\<close> otherwise), and a string of any other length comes
  back unchanged.
\<close>

theorem yyyymmdd_str_total:
  "yyyymmdd (Str d) =
     Inr (Str (if length d = 6 then (if hd d = CHR ''9'' then ''19'' else ''20'') @ d else d))"
  by (simp add: yyyymmdd_def yymmdd2yyyymmdd_len6 bind_err_def)

text \<open>
  C6 fails as stated: a four-character string and a string with letters are both
  accepted, no error is raised.
\<close>

theorem yyyymmdd_no_format_error:
  "yyyymmdd (Str ''2008'') = Inr (Str ''2008'') \<and>
   yyyymmdd (Str ''20o8-1-1'') = Inr (Str ''20o8-1-1'') \<and>
   yyyymmdd (Str ''ab.def'') = Inr (Str ''20ab.def'')"
  by (simp add: yyyymmdd_def yymmdd2yyyymmdd_def bind_err_def)

text \<open>
  C8: for a six-character date \<open>d\<close>, expanding it, contracting the result with \<open>yymmdd\<close>
  and expanding again gives the eight-character date of the first expansion; none of
  the three calls raises.
\<close>

theorem yyyymmdd_round_trip:
  assumes "length d = 6"
  shows "bind_err (yyyymmdd (Str d)) (\<lambda>a. bind_err (yymmdd a) yyyymmdd) = yyyymmdd (Str d)
         \<and> (\<exists>e. yyyymmdd (Str d) = Inr (Str e) \<and> length e = 8 \<and> yymmdd (Str e) = Inr (Str d))"
proof -
  let ?p = "if hd d = CHR ''9'' then ''19'' else ''20''"
  have e: "yyyymmdd (Str d) = Inr (Str (?p @ d))"
    using assms by (simp add: yyyymmdd_def yymmdd2yyyymmdd_len6 bind_err_def)
  have l: "length (?p @ d) = 8"
    using assms by simp
  have c: "yymmdd (Str (?p @ d)) = Inr (Str d)"
    using assms by (simp add: yymmdd_def slice_2_8_def)
  show ?thesis
    unfolding e using l c e by (simp add: bind_err_def)
qed

theorem yyyymmdd_round_trip_witness:
  "length ''080520'' = 6 \<and> yyyymmdd (Str ''080520'') = Inr (Str ''20080520'') \<and>
   bind_err (yyyymmdd (Str ''080520'')) (\<lambda>a. bind_err (yymmdd a) yyyymmdd)
     = Inr (Str ''20080520'')"
  using yyyymmdd_round_trip [of "''080520''"]
  by (simp add: yyyymmdd_def yymmdd2yyyymmdd_def bind_err_def)

section \<open>Properties of the index-list parser\<close>

lemma str_split_nonempty: "str_split sep s \<noteq> []"
  by (induction s) (auto split: list.splits)







lemma set_dropWhile_cover: "x \<in> set xs \<Longrightarrow> P x \<or> x \<in> set (dropWhile P xs)"
  by (induction xs) auto

lemma strip_cover: "c \<in> set s \<Longrightarrow> is_space c \<or> c \<in> set (strip s)"
proof -
  assume c: "c \<in> set s"
  show ?thesis
  proof (cases "is_space c")
    case True then show ?thesis by simp
  next
    case False
    with c have "c \<in> set (dropWhile is_space s)"
      using set_dropWhile_cover [of c s is_space] by simp
    then have "c \<in> set (rev (dropWhile is_space s))" by simp
    with False have "c \<in> set (dropWhile is_space (rev (dropWhile is_space s)))"
      using set_dropWhile_cover [of c "rev (dropWhile is_space s)" is_space] by blast
    then show ?thesis by (simp add: strip_def)
  qed
qed

lemma is_space_ascii: "is_space c \<Longrightarrow> (of_char c :: nat) < 128"
  by (auto simp: is_space_def)

lemma is_digit_ascii: "is_digit c \<Longrightarrow> (of_char c :: nat) < 128"
  by (auto simp: is_digit_def)

lemma digits_val_ascii: "digits_val acc cs = Some v \<Longrightarrow> is_ascii cs"
  by (induction acc cs arbitrary: v rule: digits_val.induct)
     (auto simp: is_ascii_def is_digit_ascii split: if_splits)

lemma unsigned_int_ascii: "unsigned_int b = Some v \<Longrightarrow> is_ascii b"
  using digits_val_ascii
  by (auto simp: unsigned_int_def is_ascii_def is_digit_ascii split: list.splits if_splits)

lemma py_int_ascii: "py_int s = Some v \<Longrightarrow> is_ascii s"
proof -
  assume p: "py_int s = Some v"
  have "is_ascii (strip s)"
  proof (cases "strip s")
    case Nil
    then show ?thesis by (simp add: is_ascii_def)
  next
    case (Cons c cs)
    show ?thesis
    proof (cases "c = CHR ''-'' \<or> c = CHR ''+''")
      case True
      with p Cons obtain w where "unsigned_int cs = Some w"
        by (auto simp: py_int_def split: if_splits)
      then have "is_ascii cs" by (rule unsigned_int_ascii)
      with True Cons show ?thesis by (auto simp: is_ascii_def)
    next
      case False
      with p Cons have "unsigned_int (c # cs) = Some v"
        by (simp add: py_int_def)
      then have "is_ascii (c # cs)" by (rule unsigned_int_ascii)
      with Cons show ?thesis by simp
    qed
  qed
  then show ?thesis
    using strip_cover [of _ s] is_space_ascii
    by (auto simp: is_ascii_def list_all_iff)
qed

lemma str_split_cover: "c \<in> set s \<Longrightarrow> c = sep \<or> (\<exists>p \<in> set (str_split sep s). c \<in> set p)"
proof (induction s)
  case Nil
  then show ?case by simp
next
  case (Cons a s)
  obtain p ps where sp: "str_split sep s = p # ps"
    using str_split_nonempty [of sep s] by (cases "str_split sep s") auto
  show ?case
  proof (cases "c = sep")
    case True then show ?thesis by simp
  next
    case False
    show ?thesis
    proof (cases "a = sep")
      case True
      with False Cons have "\<exists>p \<in> set (str_split sep s). c \<in> set p" by auto
      with True show ?thesis by simp
    next
      case False
      then show ?thesis using Cons \<open>c \<noteq> sep\<close> sp by auto
    qed
  qed
qed

lemma all_parts_int_ascii: "all_parts_int idxList \<Longrightarrow> list_all is_ascii idxList"
proof -
  assume a: "all_parts_int idxList"
  have "is_ascii tok" if t: "tok \<in> set idxList" for tok
    unfolding is_ascii_def list_all_iff
  proof
    fix c assume c: "c \<in> set tok"
    from str_split_cover [OF c, of "CHR '':''"]
    show "(of_char c :: nat) < 128"
    proof
      assume "c = CHR '':''"
      then show ?thesis by simp
    next
      assume "\<exists>p \<in> set (str_split CHR '':'' tok). c \<in> set p"
      then obtain p where p: "p \<in> set (str_split CHR '':'' tok)" "c \<in> set p" by blast
      with a t obtain v where "py_int p = Some v"
        by (auto simp: all_parts_int_def list_all_iff)
      then have "is_ascii p" by (rule py_int_ascii)
      with p(2) show ?thesis by (simp add: is_ascii_def list_all_iff)
    qed
  qed
  then show ?thesis by (simp add: list_all_iff)
qed




section \<open>Lemmas on the helpers\<close>

lemma bind_err_Inr: "bind_err m f = Inr r \<longleftrightarrow> (\<exists>x. m = Inr x \<and> f x = Inr r)"
  by (cases m) (simp_all add: bind_err_def)

lemma bind_err_simps: "bind_err (Inr x) f = f x" "bind_err (Inl e) f = Inl e"
  by (simp_all add: bind_err_def)

lemma sorted_set_props: "set (sorted_set xs) = set xs" "sorted (sorted_set xs)" "distinct (sorted_set xs)"
  by (simp_all add: sorted_set_def)

lemma sorted_set_eq_iff: "sorted_set xs = sorted_set ys \<longleftrightarrow> set xs = set ys"
proof
  assume "sorted_set xs = sorted_set ys"
  then have "set (sorted_set xs) = set (sorted_set ys)" by simp
  then show "set xs = set ys" by (simp add: sorted_set_props)
next
  assume "set xs = set ys"
  then have "sorted_list_of_set (set xs) = sorted_list_of_set (set ys)" by simp
  then show "sorted_set xs = sorted_set ys"
    by (simp add: sorted_set_def sorted_list_of_set_sort_remdups)
qed

lemma sorted_set_is_sorted_list_of_set: "sorted_set xs = sorted_list_of_set (set xs)"
  by (simp add: sorted_set_def sorted_list_of_set_sort_remdups)

section \<open>Properties of reset\_network\<close>

text \<open>
  C3: after \<open>reset_network\<close> every flag of the stored dataset is \<open>True\<close>, that is no
  pair is marked as dropped, and nothing else of the stack has changed; when every flag
  is \<open>True\<close> already the stack is left as it is, the last line printed says so and the
  function returns; and a second reset leaves the stored stack as the first one left
  it, from every starting state. (When it does write, the function ends in
  \<open>NameError\<close> after the write; the stored flags are as stated.)
\<close>

theorem reset_network_restores_all:
  "list_all (\<lambda>b. b) (dropIfgram (fst (reset_network stackFile obj)))
   \<and> length (dropIfgram (fst (reset_network stackFile obj))) = length (dropIfgram obj)
   \<and> ifgramStack.truncate (fst (reset_network stackFile obj)\<lparr>dropIfgram := []\<rparr>) = ifgramStack.truncate (obj\<lparr>dropIfgram := []\<rparr>)
   \<and> (list_all (\<lambda>b. b) (dropIfgram obj) \<longrightarrow>
        fst (reset_network stackFile obj) = obj
        \<and> last (fst (snd (reset_network stackFile obj))) = ''All dropIfgram are already True, no need to reset.''
        \<and> snd (snd (reset_network stackFile obj)) = Inr stackFile)
   \<and> fst (reset_network stackFile (fst (reset_network stackFile obj))) = fst (reset_network stackFile obj)"
  by (auto simp: reset_network_def Let_def list_all_iff ifgramStack.truncate_def)

theorem reset_network_restores_all_witness:
  "list_all (\<lambda>b. b) (dropIfgram ex_stack)
   \<and> fst (reset_network ''ifgramStack.h5'' ex_stack) = ex_stack
   \<and> snd (snd (reset_network ''ifgramStack.h5'' ex_stack)) = Inr ''ifgramStack.h5''
   \<and> fst (reset_network ''ifgramStack.h5'' (ex_stack\<lparr>dropIfgram := [True, False, True]\<rparr>)) = ex_stack"
proof -
  have a: "list_all (\<lambda>b. b) (dropIfgram ex_stack)"
    by code_simp
  have b: "fst (reset_network ''ifgramStack.h5'' (ex_stack\<lparr>dropIfgram := [True, False, True]\<rparr>)) = ex_stack"
    by code_simp
  from a reset_network_restores_all [of "''ifgramStack.h5''" ex_stack]
  have "fst (reset_network ''ifgramStack.h5'' ex_stack) = ex_stack
        \<and> snd (snd (reset_network ''ifgramStack.h5'' ex_stack)) = Inr ''ifgramStack.h5''"
    by blast
  with a b show ?thesis by blast
qed

section \<open>Properties of read\_template2inps and main\<close>

text \<open>
  C10: when a template file is given and, after its values are copied, no option that
  drops pairs is set, \<open>read_template2inps\<close> turns \<open>reset\<close> on; \<open>main\<close> then does not
  exit with status 1 but runs \<open>reset_network\<close>, after which every flag of the stored
  dataset is \<open>True\<close>.
\<close>

theorem template_without_option_turns_reset_on:
  assumes "truthy_str (template_file inps0)"
    and "update_from_template inps0 = Inr inps"
    and "no_drop_option inps"
  shows "read_template2inps update_from_template inps0 = Inr (inps\<lparr>reset := True\<rparr>)
         \<and> main update_from_template inps0 obj env = main_body (inps\<lparr>reset := True\<rparr>) obj env
         \<and> snd (main update_from_template inps0 obj env) \<noteq> SysExit 1
         \<and> fst (main update_from_template inps0 obj env) = fst (reset_network (file' inps) obj)
         \<and> list_all (\<lambda>b. b) (dropIfgram (fst (main update_from_template inps0 obj env)))"
proof -
  have r: "read_template2inps update_from_template inps0 = Inr (inps\<lparr>reset := True\<rparr>)"
    using assms by (simp add: read_template2inps_def bind_err_def)
  have m: "main update_from_template inps0 obj env = main_body (inps\<lparr>reset := True\<rparr>) obj env"
    using assms(1) r by (simp add: main_def)
  have n: "\<not> no_drop_option (inps\<lparr>reset := True\<rparr>)"
    by (simp add: no_drop_option_def)
  have b: "main_body (inps\<lparr>reset := True\<rparr>) obj env =
             (fst (reset_network (file' inps) obj),
              case snd (snd (reset_network (file' inps) obj)) of Inl e \<Rightarrow> Raised e | Inr f \<Rightarrow> Returned)"
    using n by (simp add: main_body_def split: prod.splits)
  have e: "snd (main_body (inps\<lparr>reset := True\<rparr>) obj env) \<noteq> SysExit 1"
    unfolding b by (simp split: sum.splits)
  have a: "list_all (\<lambda>b. b) (dropIfgram (fst (reset_network (file' inps) obj)))"
    by (simp add: reset_network_def Let_def list_all_iff)
  show ?thesis
    using r m e a b by simp
qed

theorem template_without_option_turns_reset_on_witness:
  "truthy_str (template_file (ex_inps\<lparr>template_file := Some ''pysarApp_template.txt''\<rparr>))
   \<and> no_drop_option (ex_inps\<lparr>template_file := Some ''pysarApp_template.txt''\<rparr>)
   \<and> read_template2inps Inr (ex_inps\<lparr>template_file := Some ''pysarApp_template.txt''\<rparr>)
       = Inr (ex_inps\<lparr>template_file := Some ''pysarApp_template.txt'', reset := True\<rparr>)
   \<and> fst (main Inr (ex_inps\<lparr>template_file := Some ''pysarApp_template.txt''\<rparr>)
             (ex_stack\<lparr>dropIfgram := [True, False, True]\<rparr>) ex_env) = ex_stack"
proof -
  let ?i = "ex_inps\<lparr>template_file := Some ''pysarApp_template.txt''\<rparr>"
  have a: "truthy_str (template_file ?i)"
    by code_simp
  have b: "no_drop_option ?i"
    by code_simp
  have c: "fst (reset_network (file' ?i) (ex_stack\<lparr>dropIfgram := [True, False, True]\<rparr>)) = ex_stack"
    by code_simp
  from template_without_option_turns_reset_on [of ?i Inr ?i, OF a refl b]
  have "read_template2inps Inr ?i = Inr (?i\<lparr>reset := True\<rparr>)
        \<and> fst (main Inr ?i (ex_stack\<lparr>dropIfgram := [True, False, True]\<rparr>) ex_env)
            = fst (reset_network (file' ?i) (ex_stack\<lparr>dropIfgram := [True, False, True]\<rparr>))"
    by blast
  with a b c show ?thesis by simp
qed

section \<open>Properties of get\_date12\_to\_drop\<close>

lemma set_zip_filter:
  "set (map fst (filter snd (zip xs flags)))
     = {xs ! k | k. k < length xs \<and> k < length flags \<and> flags ! k}"
  by (auto simp: set_zip image_iff) force

lemma mask_select_cases:
  "mask_select xs flags =
     (if flags = [] \<or> length flags = length xs
      then Inr (map fst (filter snd (zip xs flags))) else Inl IndexError)"
  by (simp add: mask_select_def)

text \<open>
  C1: with the coherence-based rule and \<open>keepMinSpanTree\<close> on, the rule appends the
  sorted list of the pairs of the stack that are neither at a position with coherence
  at least \<open>minCoherence\<close> nor in the list the tree function returns. This holds with
  one coherence per pair, and with no coherence at all, where no pair passes the
  threshold; with any other number of coherences the mask raises \<open>IndexError\<close>. So a
  pair of the tree is never in the list the rule adds, whatever its coherence.
\<close>

theorem coherence_rule_keeps_mst:
  assumes "coherenceBased inps" and "keepMinSpanTree inps"
  shows "drop_coherence inps obj env date12_to_drop =
           (if cohList env = [] \<or> length (cohList env) = length (date12List obj) then
              Inr (date12_to_drop @
                   sorted_list_of_set
                     (set (date12List obj)
                      - {date12List obj ! k | k. k < length (date12List obj) \<and> k < length (cohList env)
                                                  \<and> minCoherence inps \<le> cohList env ! k}
                      - set (threshold_coherence_based_mst env (date12List obj) (cohList env))))
            else Inl IndexError)
         \<and> (\<forall>tempList d. coherence_tempList inps obj env = Inr tempList \<and>
                d \<in> set (threshold_coherence_based_mst env (date12List obj) (cohList env))
                \<longrightarrow> d \<notin> set tempList)"
proof (cases "cohList env = [] \<or> length (cohList env) = length (date12List obj)")
  case True
  let ?flags = "map (\<lambda>c. minCoherence inps \<le> c) (cohList env)"
  let ?keep = "map fst (filter snd (zip (date12List obj) ?flags))"
  let ?mst = "threshold_coherence_based_mst env (date12List obj) (cohList env)"
  have k: "set ?keep = {date12List obj ! k | k. k < length (date12List obj) \<and> k < length (cohList env)
                                                  \<and> minCoherence inps \<le> cohList env ! k}"
    unfolding set_zip_filter by auto
  have ms: "mask_select (date12List obj) ?flags = Inr ?keep"
    using True by (simp add: mask_select_cases)
  have t: "coherence_tempList inps obj env =
             Inr (sorted_set (filter (\<lambda>d. d \<notin> set ?keep \<and> d \<notin> set ?mst) (date12List obj)))"
    using assms(2) by (simp add: coherence_tempList_def ms bind_err_def Let_def)
  have s: "set (filter (\<lambda>d. d \<notin> set ?keep \<and> d \<notin> set ?mst) (date12List obj))
             = set (date12List obj) - set ?keep - set ?mst"
    by auto
  have "sorted_set (filter (\<lambda>d. d \<notin> set ?keep \<and> d \<notin> set ?mst) (date12List obj))
          = sorted_list_of_set (set (date12List obj) - set ?keep - set ?mst)"
    unfolding sorted_set_is_sorted_list_of_set s ..
  then have t': "coherence_tempList inps obj env =
      Inr (sorted_list_of_set (set (date12List obj)
            - {date12List obj ! k | k. k < length (date12List obj) \<and> k < length (cohList env)
                                        \<and> minCoherence inps \<le> cohList env ! k}
            - set ?mst))"
    using t k by simp
  have m: "\<forall>tempList d. coherence_tempList inps obj env = Inr tempList \<and> d \<in> set ?mst \<longrightarrow> d \<notin> set tempList"
    unfolding t' by auto
  show ?thesis
    using True assms(1) t' m by (simp add: drop_coherence_def bind_err_def)
next
  case False
  have ms: "mask_select (date12List obj) (map (\<lambda>c. minCoherence inps \<le> c) (cohList env)) = Inl IndexError"
    using False by (simp add: mask_select_cases)
  have t: "coherence_tempList inps obj env = Inl IndexError"
    by (simp add: coherence_tempList_def ms bind_err_def)
  show ?thesis
    using False assms(1) t by (simp add: drop_coherence_def bind_err_def)
qed

theorem coherence_rule_keeps_mst_witness:
  "coherenceBased (ex_inps\<lparr>coherenceBased := True\<rparr>)
   \<and> keepMinSpanTree (ex_inps\<lparr>coherenceBased := True\<rparr>)
   \<and> cohList ex_env ! 1 < minCoherence (ex_inps\<lparr>coherenceBased := True\<rparr>)
   \<and> ''20080201_20080301''
        \<in> set (threshold_coherence_based_mst ex_env (date12List ex_stack) (cohList ex_env))
   \<and> coherence_tempList (ex_inps\<lparr>coherenceBased := True\<rparr>) ex_stack ex_env
        = Inr [''20080101_20080301'']
   \<and> ''20080201_20080301'' \<notin> set [''20080101_20080301'']"
proof -
  let ?i = "ex_inps\<lparr>coherenceBased := True\<rparr>"
  have a: "coherenceBased ?i" "keepMinSpanTree ?i"
    by code_simp+
  have b: "cohList ex_env ! 1 < minCoherence ?i"
    by (simp add: ex_env_def ex_inps_def)
  have c: "''20080201_20080301''
             \<in> set (threshold_coherence_based_mst ex_env (date12List ex_stack) (cohList ex_env))"
    by (simp add: ex_env_def ex_stack_def)
  have d: "coherence_tempList ?i ex_stack ex_env = Inr [''20080101_20080301'']"
    by code_simp
  from coherence_rule_keeps_mst [OF a, of ex_stack ex_env "[]"] c d
  have "''20080201_20080301'' \<notin> set [''20080101_20080301'']"
    by blast
  with a b c d show ?thesis by blast
qed

lemma drop_excludeDate_raises:
  "excludeDate inps \<noteq> [] \<Longrightarrow> drop_excludeDate inps obj date12_to_drop = Inl NameError"
  by (simp add: drop_excludeDate_def)

lemma excludeDate_never_returns:
  "excludeDate inps \<noteq> [] \<Longrightarrow> get_date12_to_drop inps obj env \<noteq> Inr r"
  by (auto simp: get_date12_to_drop_def collect_date12_to_drop_def drop_rules_def bind_err_Inr
      drop_excludeDate_raises)

text \<open>
  C2 (the code at the failing input): with only the date-exclusion rule enabled, for
  the date 20080101, the rule does build the list of the two pairs that contain the
  date, and then \<open>get_date12_to_drop\<close> ends in \<open>NameError\<close>; \<open>main\<close> writes nothing.
\<close>

theorem excludeDate_rule_raises_NameError:
  "excludeDate_tempList (ex_inps\<lparr>excludeDate := [''20080101'']\<rparr>) ex_stack
     = [''20080101_20080201'', ''20080101_20080301'']
   \<and> get_date12_to_drop (ex_inps\<lparr>excludeDate := [''20080101'']\<rparr>) ex_stack ex_env = Inl NameError
   \<and> main_body (ex_inps\<lparr>excludeDate := [''20080101'']\<rparr>) ex_stack ex_env = (ex_stack, Raised NameError)"
  by code_simp

lemma date12ListDropped_set:
  "date12ListDropped obj = sorted_list_of_set (set (date12List obj) - set (get_date12_list_kept obj))"
proof -
  have "set (filter (\<lambda>d. d \<notin> set (get_date12_list_kept obj)) (date12List obj))
          = set (date12List obj) - set (get_date12_list_kept obj)"
    by auto
  then show ?thesis
    by (simp add: date12ListDropped_def sorted_set_is_sorted_list_of_set)
qed

lemma collect_Some:
  "collect_date12_to_drop inps obj env = Inr (Some d) \<Longrightarrow>
     \<exists>d8 acc. drop_rules inps obj env = Inr d8 \<and> drop_manual inps obj env d8 = Some acc
              \<and> d = sorted_set acc"
  by (auto simp: collect_date12_to_drop_def bind_err_Inr)

lemma sorted_distinct_is_sorted_list_of_set:
  "sorted d \<Longrightarrow> distinct d \<Longrightarrow> d = sorted_list_of_set (set d)"
  by (simp add: sorted_list_of_set.idem_if_sorted_distinct)

text \<open>
  C4: when the rules produce a drop list (no exception, no abort of the manual
  selection), it is sorted and without duplicates; \<open>get_date12_to_drop\<close> returns
  \<open>None\<close> exactly when it holds the same pairs as are marked as dropped in the file now,
  and the list itself otherwise; \<open>main\<close> leaves the file as it is in the first case and
  writes the list back in the second.
\<close>

theorem get_date12_to_drop_no_change:
  assumes "collect_date12_to_drop inps obj env = Inr (Some date12_to_drop)"
  shows "sorted date12_to_drop \<and> distinct date12_to_drop
     \<and> get_date12_to_drop inps obj env =
         Inr (if set date12_to_drop = set (date12List obj) - set (get_date12_list_kept obj)
              then None else Some date12_to_drop)
     \<and> (\<not> no_drop_option inps \<and> \<not> reset inps \<longrightarrow>
          main_body inps obj env =
            (if set date12_to_drop = set (date12List obj) - set (get_date12_list_kept obj)
             then obj else update_drop_ifgram date12_to_drop obj, Returned))"
proof -
  from collect_Some [OF assms] obtain acc where d: "date12_to_drop = sorted_set acc"
    by blast
  have sd: "sorted date12_to_drop" "distinct date12_to_drop"
    unfolding d by (simp_all add: sorted_set_props)
  have eq: "date12_to_drop = date12ListDropped obj
              \<longleftrightarrow> set date12_to_drop = set (date12List obj) - set (get_date12_list_kept obj)"
    (is "?l \<longleftrightarrow> ?r")
  proof
    assume ?l
    then have "set date12_to_drop = set (date12ListDropped obj)" by simp
    then show ?r by (simp add: date12ListDropped_set)
  next
    assume ?r
    then have "sorted_list_of_set (set date12_to_drop) = date12ListDropped obj"
      by (simp add: date12ListDropped_set)
    then show ?l
      using sorted_distinct_is_sorted_list_of_set [OF sd] by simp
  qed
  have g: "get_date12_to_drop inps obj env =
             Inr (if set date12_to_drop = set (date12List obj) - set (get_date12_list_kept obj)
                  then None else Some date12_to_drop)"
    using assms eq by (simp add: get_date12_to_drop_def bind_err_def)
  have m: "\<not> no_drop_option inps \<and> \<not> reset inps \<longrightarrow>
          main_body inps obj env =
            (if set date12_to_drop = set (date12List obj) - set (get_date12_list_kept obj)
             then obj else update_drop_ifgram date12_to_drop obj, Returned)"
    unfolding main_body_def g by simp
  show ?thesis
    using sd g m by blast
qed

theorem get_date12_to_drop_no_change_witness:
  "collect_date12_to_drop (ex_inps\<lparr>coherenceBased := True\<rparr>)
       (ex_stack\<lparr>dropIfgram := [True, True, False]\<rparr>) ex_env = Inr (Some [''20080101_20080301''])
   \<and> get_date12_to_drop (ex_inps\<lparr>coherenceBased := True\<rparr>)
       (ex_stack\<lparr>dropIfgram := [True, True, False]\<rparr>) ex_env = Inr None
   \<and> sorted [''20080101_20080301''] \<and> distinct [''20080101_20080301'']
   \<and> get_date12_to_drop (ex_inps\<lparr>coherenceBased := True\<rparr>) ex_stack ex_env
       = Inr (Some [''20080101_20080301''])"
proof -
  let ?i = "ex_inps\<lparr>coherenceBased := True\<rparr>"
  let ?s = "ex_stack\<lparr>dropIfgram := [True, True, False]\<rparr>"
  have a: "collect_date12_to_drop ?i ?s ex_env = Inr (Some [''20080101_20080301''])"
    by code_simp
  have b: "get_date12_to_drop ?i ?s ex_env = Inr None"
    by code_simp
  have c: "get_date12_to_drop ?i ex_stack ex_env = Inr (Some [''20080101_20080301''])"
    by code_simp
  from get_date12_to_drop_no_change [OF a]
  have "sorted [''20080101_20080301''] \<and> distinct [''20080101_20080301'']"
    by blast
  with a b c show ?thesis by blast
qed

lemma drop_steps_manual_irrelevant:
  "drop_reference (inps\<lparr>manual := b\<rparr>) obj env d = drop_reference inps obj env d"
  "drop_coherence (inps\<lparr>manual := b\<rparr>) obj env d = drop_coherence inps obj env d"
  "drop_tempBaseMax (inps\<lparr>manual := b\<rparr>) obj d = drop_tempBaseMax inps obj d"
  "drop_perpBaseMax (inps\<lparr>manual := b\<rparr>) obj d = drop_perpBaseMax inps obj d"
  "drop_excludeIfgIndex (inps\<lparr>manual := b\<rparr>) obj d = drop_excludeIfgIndex inps obj d"
  "drop_excludeDate (inps\<lparr>manual := b\<rparr>) obj d = drop_excludeDate inps obj d"
  "drop_startDate (inps\<lparr>manual := b\<rparr>) obj d = drop_startDate inps obj d"
  "drop_endDate (inps\<lparr>manual := b\<rparr>) obj d = drop_endDate inps obj d"
  by (simp_all add: drop_reference_def drop_coherence_def coherence_tempList_def
      drop_tempBaseMax_def drop_perpBaseMax_def drop_excludeIfgIndex_def drop_excludeDate_def
      excludeDate_tempList_def drop_startDate_def drop_endDate_def)

lemma drop_rules_manual_irrelevant:
  "drop_rules (inps\<lparr>manual := b\<rparr>) obj env = drop_rules inps obj env"
  unfolding drop_rules_def drop_steps_manual_irrelevant ..

text \<open>
  C7: with the manual selection enabled and the earlier rules run without exception:
  when the user does not proceed, the selection returns \<open>None\<close>, \<open>get_date12_to_drop\<close>
  returns \<open>None\<close> whatever the other rules had collected, and \<open>main\<close> leaves the file
  as it is; when the user proceeds, the clicked pairs that are pairs of the stack are
  appended to what the other rules collected; and an empty selection is no abort: the
  result is the one of the same run without the manual rule.
\<close>

theorem manual_selection_abort:
  assumes "manual inps" and "drop_rules inps obj env = Inr d8"
  shows "(\<not> yes_or_no env \<longrightarrow>
            manual_select_pairs_to_remove env = None
            \<and> get_date12_to_drop inps obj env = Inr None
            \<and> (\<not> reset inps \<longrightarrow> main_body inps obj env = (obj, Returned)))
       \<and> (yes_or_no env \<longrightarrow>
            collect_date12_to_drop inps obj env =
              Inr (Some (sorted_set (d8 @ filter (\<lambda>i. i \<in> set (date12List obj)) (date12_click env)))))
       \<and> (yes_or_no env \<and> date12_click env = [] \<longrightarrow>
            get_date12_to_drop inps obj env = get_date12_to_drop (inps\<lparr>manual := False\<rparr>) obj env)"
proof (intro conjI impI)
  assume n: "\<not> yes_or_no env"
  show "manual_select_pairs_to_remove env = None"
    using n by (simp add: manual_select_pairs_to_remove_def)
  show g: "get_date12_to_drop inps obj env = Inr None"
    using n assms
    by (simp add: get_date12_to_drop_def collect_date12_to_drop_def drop_manual_def
        manual_select_pairs_to_remove_def bind_err_def)
  assume "\<not> reset inps"
  then show "main_body inps obj env = (obj, Returned)"
    using assms(1) g by (simp add: main_body_def no_drop_option_def)
next
  assume "yes_or_no env"
  then show "collect_date12_to_drop inps obj env =
              Inr (Some (sorted_set (d8 @ filter (\<lambda>i. i \<in> set (date12List obj)) (date12_click env))))"
    using assms
    by (simp add: collect_date12_to_drop_def drop_manual_def manual_select_pairs_to_remove_def
        bind_err_def)
next
  assume "yes_or_no env \<and> date12_click env = []"
  then show "get_date12_to_drop inps obj env = get_date12_to_drop (inps\<lparr>manual := False\<rparr>) obj env"
    using assms
    by (simp add: get_date12_to_drop_def collect_date12_to_drop_def drop_manual_def
        manual_select_pairs_to_remove_def bind_err_def drop_rules_manual_irrelevant)
qed

theorem manual_selection_abort_witness:
  "manual (ex_inps\<lparr>tempBaseMax := Some 30, manual := True\<rparr>)
   \<and> drop_rules (ex_inps\<lparr>tempBaseMax := Some 30, manual := True\<rparr>) ex_stack ex_env
       = Inr [''20080101_20080201'', ''20080101_20080301'']
   \<and> get_date12_to_drop (ex_inps\<lparr>tempBaseMax := Some 30, manual := True\<rparr>) ex_stack
       (ex_env\<lparr>yes_or_no := False\<rparr>) = Inr None
   \<and> collect_date12_to_drop (ex_inps\<lparr>tempBaseMax := Some 30, manual := True\<rparr>) ex_stack ex_env
       = Inr (Some [''20080101_20080201'', ''20080101_20080301'', ''20080201_20080301''])
   \<and> get_date12_to_drop (ex_inps\<lparr>tempBaseMax := Some 30, manual := True\<rparr>) ex_stack
       (ex_env\<lparr>date12_click := []\<rparr>) = Inr (Some [''20080101_20080201'', ''20080101_20080301''])"
proof -
  let ?i = "ex_inps\<lparr>tempBaseMax := Some 30, manual := True\<rparr>"
  have a: "manual ?i"
    by code_simp
  have b: "drop_rules ?i ex_stack ex_env = Inr [''20080101_20080201'', ''20080101_20080301'']"
    by code_simp
  have b': "drop_rules ?i ex_stack (ex_env\<lparr>yes_or_no := False\<rparr>)
              = Inr [''20080101_20080201'', ''20080101_20080301'']"
    by code_simp
  have n: "\<not> yes_or_no (ex_env\<lparr>yes_or_no := False\<rparr>)"
    by simp
  have c: "collect_date12_to_drop ?i ex_stack ex_env
             = Inr (Some [''20080101_20080201'', ''20080101_20080301'', ''20080201_20080301''])"
    by code_simp
  have d: "get_date12_to_drop ?i ex_stack (ex_env\<lparr>date12_click := []\<rparr>)
             = Inr (Some [''20080101_20080201'', ''20080101_20080301''])"
    by code_simp
  from manual_selection_abort [OF a b'] n
  have "get_date12_to_drop ?i ex_stack (ex_env\<lparr>yes_or_no := False\<rparr>) = Inr None"
    by blast
  with a b c d show ?thesis by blast
qed

lemma mono_reference:
  assumes "truthy_str (referenceFile a) \<longrightarrow> referenceFile b = referenceFile a"
    and "drop_reference a obj env x = Inr r" and "drop_reference b obj env y = Inr s"
    and "set x \<subseteq> set y"
  shows "set r \<subseteq> set s"
  using assms by (auto simp: drop_reference_def Let_def split: if_splits)

lemma mono_coherence:
  assumes "coherenceBased a \<longrightarrow> coherenceBased b \<and> keepMinSpanTree b = keepMinSpanTree a
                              \<and> minCoherence b = minCoherence a"
    and "drop_coherence a obj env x = Inr r" and "drop_coherence b obj env y = Inr s"
    and "set x \<subseteq> set y"
  shows "set r \<subseteq> set s"
proof (cases "coherenceBased a")
  case True
  with assms(1) have "coherence_tempList b obj env = coherence_tempList a obj env" "coherenceBased b"
    by (simp_all add: coherence_tempList_def)
  with True assms(2,3,4) show ?thesis
    by (auto simp: drop_coherence_def bind_err_Inr)
next
  case False
  with assms(2,3,4) show ?thesis
    by (auto simp: drop_coherence_def bind_err_Inr split: if_splits)
qed

lemma mono_tempBaseMax:
  assumes "truthy_num (tempBaseMax a) \<longrightarrow> tempBaseMax b = tempBaseMax a"
    and "drop_tempBaseMax a obj x = Inr r" and "drop_tempBaseMax b obj y = Inr s"
    and "set x \<subseteq> set y"
  shows "set r \<subseteq> set s"
  using assms
  by (auto simp: drop_tempBaseMax_def truthy_num_def bind_err_Inr split: option.splits if_splits)

lemma mono_perpBaseMax:
  assumes "truthy_num (perpBaseMax a) \<longrightarrow> perpBaseMax b = perpBaseMax a"
    and "drop_perpBaseMax a obj x = Inr r" and "drop_perpBaseMax b obj y = Inr s"
    and "set x \<subseteq> set y"
  shows "set r \<subseteq> set s"
  using assms
  by (auto simp: drop_perpBaseMax_def truthy_num_def bind_err_Inr split: option.splits if_splits)

lemma mono_excludeIfgIndex:
  assumes "excludeIfgIndex a \<noteq> [] \<longrightarrow> excludeIfgIndex b = excludeIfgIndex a"
    and "drop_excludeIfgIndex a obj x = Inr r" and "drop_excludeIfgIndex b obj y = Inr s"
    and "set x \<subseteq> set y"
  shows "set r \<subseteq> set s"
  using assms
  by (auto simp: drop_excludeIfgIndex_def bind_err_Inr split: if_splits)

lemma mono_excludeDate:
  assumes "drop_excludeDate a obj x = Inr r" and "drop_excludeDate b obj y = Inr s"
    and "set x \<subseteq> set y"
  shows "set r \<subseteq> set s"
  using assms
  by (auto simp: drop_excludeDate_def Let_def split: if_splits)

lemma mono_startDate:
  assumes "truthy_str (startDate a) \<longrightarrow> startDate b = startDate a"
    and "drop_startDate a obj x = Inr r" and "drop_startDate b obj y = Inr s"
    and "set x \<subseteq> set y"
  shows "set r \<subseteq> set s"
  using assms
  by (auto simp: drop_startDate_def truthy_str_def bind_err_Inr split: option.splits if_splits)

lemma mono_endDate:
  assumes "truthy_str (endDate a) \<longrightarrow> endDate b = endDate a"
    and "drop_endDate a obj x = Inr r" and "drop_endDate b obj y = Inr s"
    and "set x \<subseteq> set y"
  shows "set r \<subseteq> set s"
  using assms
  by (auto simp: drop_endDate_def truthy_str_def bind_err_Inr split: option.splits if_splits)

lemma mono_manual:
  assumes "manual a \<longrightarrow> manual b"
    and "drop_manual a obj env x = Some r" and "drop_manual b obj env y = Some s"
    and "set x \<subseteq> set y"
  shows "set r \<subseteq> set s"
  using assms
  by (auto simp: drop_manual_def split: option.splits if_splits)

lemma mono_drop_rules:
  assumes m: "more_rules a b"
    and a: "drop_rules a obj env = Inr r" and b: "drop_rules b obj env = Inr s"
  shows "set r \<subseteq> set s"
proof -
  from a obtain a1 a2 a3 a4 a5 a6 a7 where
    a1: "drop_reference a obj env [] = Inr a1" and a2: "drop_coherence a obj env a1 = Inr a2" and
    a3: "drop_tempBaseMax a obj a2 = Inr a3" and a4: "drop_perpBaseMax a obj a3 = Inr a4" and
    a5: "drop_excludeIfgIndex a obj a4 = Inr a5" and a6: "drop_excludeDate a obj a5 = Inr a6" and
    a7: "drop_startDate a obj a6 = Inr a7" and a8: "drop_endDate a obj a7 = Inr r"
    unfolding drop_rules_def bind_err_Inr by blast
  from b obtain b1 b2 b3 b4 b5 b6 b7 where
    b1: "drop_reference b obj env [] = Inr b1" and b2: "drop_coherence b obj env b1 = Inr b2" and
    b3: "drop_tempBaseMax b obj b2 = Inr b3" and b4: "drop_perpBaseMax b obj b3 = Inr b4" and
    b5: "drop_excludeIfgIndex b obj b4 = Inr b5" and b6: "drop_excludeDate b obj b5 = Inr b6" and
    b7: "drop_startDate b obj b6 = Inr b7" and b8: "drop_endDate b obj b7 = Inr s"
    unfolding drop_rules_def bind_err_Inr by blast
  have s1: "set a1 \<subseteq> set b1"
    using m a1 b1 by (intro mono_reference [of a b obj env "[]" a1 "[]" b1]) (simp_all add: more_rules_def)
  have s2: "set a2 \<subseteq> set b2"
    using m a2 b2 s1 by (intro mono_coherence [of a b obj env a1 a2 b1 b2]) (simp_all add: more_rules_def)
  have s3: "set a3 \<subseteq> set b3"
    using m a3 b3 s2 by (intro mono_tempBaseMax [of a b obj a2 a3 b2 b3]) (simp_all add: more_rules_def)
  have s4: "set a4 \<subseteq> set b4"
    using m a4 b4 s3 by (intro mono_perpBaseMax [of a b obj a3 a4 b3 b4]) (simp_all add: more_rules_def)
  have s5: "set a5 \<subseteq> set b5"
    using m a5 b5 s4 by (intro mono_excludeIfgIndex [of a b obj a4 a5 b4 b5]) (simp_all add: more_rules_def)
  have s6: "set a6 \<subseteq> set b6"
    using a6 b6 s5 by (rule mono_excludeDate)
  have s7: "set a7 \<subseteq> set b7"
    using m a7 b7 s6 by (intro mono_startDate [of a b obj a6 a7 b6 b7]) (simp_all add: more_rules_def)
  show ?thesis
    using m a8 b8 s7 by (intro mono_endDate [of a b obj a7 r b7 s]) (simp_all add: more_rules_def)
qed

text \<open>
  C9 (as the code has it): with the stack, the collaborators and the parameters of the
  rules fixed, if the options \<open>b\<close> enable every rule that \<open>a\<close> enables and both runs
  produce a drop list (neither raises, neither is aborted in the manual selection),
  every pair dropped under \<open>a\<close> is dropped under \<open>b\<close>.
\<close>

theorem drop_set_monotone_in_rules:
  assumes "more_rules a b"
    and "collect_date12_to_drop a obj env = Inr (Some da)"
    and "collect_date12_to_drop b obj env = Inr (Some db)"
  shows "set da \<subseteq> set db"
proof -
  from collect_Some [OF assms(2)] obtain ra xa where
    a: "drop_rules a obj env = Inr ra" "drop_manual a obj env ra = Some xa" "da = sorted_set xa"
    by blast
  from collect_Some [OF assms(3)] obtain rb xb where
    b: "drop_rules b obj env = Inr rb" "drop_manual b obj env rb = Some xb" "db = sorted_set xb"
    by blast
  have "set ra \<subseteq> set rb"
    using assms(1) a(1) b(1) by (rule mono_drop_rules)
  then have "set xa \<subseteq> set xb"
    using assms(1) a(2) b(2) by (intro mono_manual [of a b obj env ra xa rb xb]) (simp_all add: more_rules_def)
  then show ?thesis
    by (simp add: a(3) b(3) sorted_set_props)
qed

theorem drop_set_monotone_in_rules_witness:
  "more_rules (ex_inps\<lparr>coherenceBased := True\<rparr>)
              (ex_inps\<lparr>coherenceBased := True, tempBaseMax := Some 30\<rparr>)
   \<and> collect_date12_to_drop (ex_inps\<lparr>coherenceBased := True\<rparr>) ex_stack ex_env
       = Inr (Some [''20080101_20080301''])
   \<and> collect_date12_to_drop (ex_inps\<lparr>coherenceBased := True, tempBaseMax := Some 30\<rparr>) ex_stack ex_env
       = Inr (Some [''20080101_20080201'', ''20080101_20080301''])
   \<and> set [''20080101_20080301''] \<subseteq> set [''20080101_20080201'', ''20080101_20080301'']"
proof -
  let ?a = "ex_inps\<lparr>coherenceBased := True\<rparr>"
  let ?b = "ex_inps\<lparr>coherenceBased := True, tempBaseMax := Some 30\<rparr>"
  have m: "more_rules ?a ?b"
    by (simp add: more_rules_def ex_inps_def truthy_str_def truthy_num_def)
  have a: "collect_date12_to_drop ?a ex_stack ex_env = Inr (Some [''20080101_20080301''])"
    by code_simp
  have b: "collect_date12_to_drop ?b ex_stack ex_env
             = Inr (Some [''20080101_20080201'', ''20080101_20080301''])"
    by code_simp
  from drop_set_monotone_in_rules [OF m a b] m a b show ?thesis by blast
qed

text \<open>
  C9 fails as stated: the temporal baseline rule alone drops two pairs and \<open>main\<close>
  writes them to the file; with the manual rule added and the selection aborted,
  \<open>get_date12_to_drop\<close> returns \<open>None\<close> and no pair is dropped. With the date-exclusion
  rule added instead, the run ends in \<open>NameError\<close> and drops none either.
\<close>

theorem drop_set_not_monotone_on_abort:
  "more_rules (ex_inps\<lparr>tempBaseMax := Some 30\<rparr>) (ex_inps\<lparr>tempBaseMax := Some 30, manual := True\<rparr>)
   \<and> main_body (ex_inps\<lparr>tempBaseMax := Some 30\<rparr>) ex_stack (ex_env\<lparr>yes_or_no := False\<rparr>)
       = (ex_stack\<lparr>dropIfgram := [False, True, False]\<rparr>, Returned)
   \<and> get_date12_to_drop (ex_inps\<lparr>tempBaseMax := Some 30, manual := True\<rparr>) ex_stack
         (ex_env\<lparr>yes_or_no := False\<rparr>) = Inr None
   \<and> main_body (ex_inps\<lparr>tempBaseMax := Some 30, manual := True\<rparr>) ex_stack (ex_env\<lparr>yes_or_no := False\<rparr>)
       = (ex_stack, Returned)
   \<and> more_rules (ex_inps\<lparr>tempBaseMax := Some 30\<rparr>)
                 (ex_inps\<lparr>tempBaseMax := Some 30, excludeDate := [''20080201'']\<rparr>)
   \<and> main_body (ex_inps\<lparr>tempBaseMax := Some 30, excludeDate := [''20080201'']\<rparr>) ex_stack ex_env
       = (ex_stack, Raised NameError)"
proof -
  have m: "more_rules (ex_inps\<lparr>tempBaseMax := Some 30\<rparr>) (ex_inps\<lparr>tempBaseMax := Some 30, manual := True\<rparr>)"
    "more_rules (ex_inps\<lparr>tempBaseMax := Some 30\<rparr>)
                 (ex_inps\<lparr>tempBaseMax := Some 30, excludeDate := [''20080201'']\<rparr>)"
    by (simp_all add: more_rules_def ex_inps_def truthy_str_def truthy_num_def)
  have a: "main_body (ex_inps\<lparr>tempBaseMax := Some 30\<rparr>) ex_stack (ex_env\<lparr>yes_or_no := False\<rparr>)
       = (ex_stack\<lparr>dropIfgram := [False, True, False]\<rparr>, Returned)"
    by code_simp
  have b: "get_date12_to_drop (ex_inps\<lparr>tempBaseMax := Some 30, manual := True\<rparr>) ex_stack
         (ex_env\<lparr>yes_or_no := False\<rparr>) = Inr None"
    by code_simp
  have c: "main_body (ex_inps\<lparr>tempBaseMax := Some 30, manual := True\<rparr>) ex_stack (ex_env\<lparr>yes_or_no := False\<rparr>)
       = (ex_stack, Returned)"
    by code_simp
  have d: "main_body (ex_inps\<lparr>tempBaseMax := Some 30, excludeDate := [''20080201'']\<rparr>) ex_stack ex_env
       = (ex_stack, Raised NameError)"
    by code_simp
  from m a b c d show ?thesis by blast
qed

end
